theory Spec2Isabelle
  imports Complex_Main "HOL-Library.Sublist"
begin

section \<open>froide-crowdfunding: the forms module\<close>

text \<open>
  A shallow embedding of \<^verbatim>\<open>froide_crowdfunding/forms.py\<close>: the two policy functions
  \<^verbatim>\<open>calculate_amount_needed\<close> and \<^verbatim>\<open>parse_address\<close>, the state check
  \<^verbatim>\<open>can_start_crowdfunding\<close>, and the initialisation, validation and saving of the two
  forms.

  Conventions of the embedding.
  \<^item> A Python exception is a value of \<open>py_error\<close>; a function that may raise returns
    \<open>py_error + 'a\<close>, with \<open>Inl\<close> the exception.
  \<^item> A Python \<^verbatim>\<open>str\<close> is a \<open>string\<close>, so a character is one of the code points
    0 to 255. On these code points \<^verbatim>\<open>\d\<close> is the ten ASCII digits, and Python's
    white space (\<^verbatim>\<open>\s\<close>, \<^verbatim>\<open>str.strip\<close>) and line boundaries
    (\<^verbatim>\<open>str.splitlines\<close>) are the finite sets written out below.
  \<^item> A \<^verbatim>\<open>Decimal\<close> is a coefficient with an exponent or a special value, and its
    arithmetic rounds to the default context, as written out below. A number that the
    module only stores or tests for zero (a field's initial value, the costs of a request)
    is the rational it denotes.
\<close>

datatype py_error =
    IndexError
  | AttributeError
  | TypeError
  | ValueError
  | OverflowError
  | InvalidOperation
  | DecimalOverflow
  | ValidationError string
  | CollaboratorFailure string

subsection \<open>Characters and the string methods the module calls\<close>

definition is_digit :: "char \<Rightarrow> bool" where
  "is_digit c = (c \<in> set ''0123456789'')"

definition is_space :: "char \<Rightarrow> bool" where
  "is_space c = (c \<in> set [CHR 0x09, CHR 0x0A, CHR 0x0B, CHR 0x0C, CHR 0x0D,
                           CHR 0x1C, CHR 0x1D, CHR 0x1E, CHR 0x1F, CHR 0x20,
                           CHR 0x85, CHR 0xA0])"

definition is_linebreak :: "char \<Rightarrow> bool" where
  "is_linebreak c = (c \<in> set [CHR 0x0A, CHR 0x0B, CHR 0x0C, CHR 0x0D,
                               CHR 0x1C, CHR 0x1D, CHR 0x1E, CHR 0x85])"

text \<open>\<^verbatim>\<open>s.strip()\<close>: white space removed at both ends.\<close>

definition strip :: "string \<Rightarrow> string" where
  "strip s = rev (dropWhile is_space (rev (dropWhile is_space s)))"

text \<open>
  \<^verbatim>\<open>s.splitlines()\<close>: the lines of \<open>s\<close> without their line boundaries; a carriage return
  followed by a line feed is one boundary, and no empty last line is produced after a
  final boundary. The first argument is the line being read, reversed.
\<close>

fun splitlines_from :: "string \<Rightarrow> string \<Rightarrow> string list" where
  "splitlines_from cur [] = (if cur = [] then [] else [rev cur])"
| "splitlines_from cur [c] =
     (if is_linebreak c then [rev cur] else [rev (c # cur)])"
| "splitlines_from cur (c # d # cs) =
     (if c = CHR 0x0D \<and> d = CHR 0x0A then rev cur # splitlines_from [] cs
      else if is_linebreak c then rev cur # splitlines_from [] (d # cs)
      else splitlines_from (c # cur) (d # cs))"

definition splitlines :: "string \<Rightarrow> string list" where
  "splitlines s = splitlines_from [] s"

text \<open>\<^verbatim>\<open>sep.join(xs)\<close>.\<close>

fun join :: "string \<Rightarrow> string list \<Rightarrow> string" where
  "join sep [] = []"
| "join sep [x] = x"
| "join sep (x # y # ys) = x @ sep @ join sep (y # ys)"

text \<open>
  \<^verbatim>\<open>s.replace(old, new)\<close>: every occurrence of \<open>old\<close>, found from the left and not
  overlapping, becomes \<open>new\<close>. With an empty \<open>old\<close>, Python puts \<open>new\<close> before every
  character and at the end.
\<close>

function replace :: "string \<Rightarrow> string \<Rightarrow> string \<Rightarrow> string" where
  "replace s old new =
     (if old = [] then new @ concat (map (\<lambda>c. c # new) s)
      else if s = [] then []
      else if prefix old s then new @ replace (drop (length old) s) old new
      else hd s # replace (tl s) old new)"
  by pat_completeness auto
termination
  by (relation "measure (\<lambda>(s, old, new). length s)") auto

subsection \<open>The pattern \<^verbatim>\<open>POSTCODE_RE = (\d{5})\s+(.*)\<close>\<close>

text \<open>
  A match object is kept as its three pieces: group 1 (the five digits), the white space
  taken by \<^verbatim>\<open>\s+\<close>, and group 2. \<^verbatim>\<open>\s+\<close> and \<^verbatim>\<open>.*\<close> are greedy, and \<^verbatim>\<open>.*\<close>
  matches the empty string, so the first try of the matcher succeeds: all the white space,
  then every character up to the next line feed (the dot matches any character but
  \<^verbatim>\<open>\n\<close>).
\<close>

record re_match =
  group1 :: string
  spaces :: string
  group2 :: string

definition group0 :: "re_match \<Rightarrow> string" where
  "group0 m = group1 m @ spaces m @ group2 m"

definition match_here :: "string \<Rightarrow> re_match option" where
  "match_here s =
     (let ds = take 5 s; r = drop 5 s in
      if length ds = 5 \<and> list_all is_digit ds \<and> r \<noteq> [] \<and> is_space (hd r)
      then Some \<lparr>group1 = ds,
                 spaces = takeWhile is_space r,
                 group2 = takeWhile (\<lambda>c. c \<noteq> CHR 0x0A) (dropWhile is_space r)\<rparr>
      else None)"

text \<open>\<^verbatim>\<open>POSTCODE_RE.search(s)\<close>: the match at the leftmost position that has one.\<close>

fun search :: "string \<Rightarrow> re_match option" where
  "search [] = None"
| "search (c # cs) =
     (case match_here (c # cs) of Some m \<Rightarrow> Some m | None \<Rightarrow> search cs)"

subsection \<open>The policy functions\<close>

text \<open>
  \<^verbatim>\<open>parse_address\<close> returns a dict: a map from keys to strings. The empty dict is
  \<open>Map.empty\<close>. \<^verbatim>\<open>refined[0]\<close> raises IndexError on an empty list.
\<close>

definition parse_address :: "string \<Rightarrow> py_error + (string \<rightharpoonup> string)" where
  "parse_address address =
     (case search address of
        None \<Rightarrow> Inr Map.empty
      | Some m \<Rightarrow>
          (let postcode = group1 m;
               city = group2 m;
               refined = splitlines (strip (replace address (group0 m) []))
           in case refined of
                [] \<Rightarrow> Inl IndexError
              | l # _ \<Rightarrow> Inr [''address'' \<mapsto> l, ''postcode'' \<mapsto> postcode, ''city'' \<mapsto> city]))"



subsection \<open>Decimal arithmetic\<close>

text \<open>
  A \<^verbatim>\<open>Decimal\<close> is a signed coefficient with an exponent, \<open>Dec c e\<close> for \<open>c\<close> times 10 to
  the \<open>e\<close>, or one of the special values. (The sign of a zero and signalling NaNs are not
  kept.) Arithmetic rounds its result to the context: the default context has a precision
  of 28 digits, rounds half to even, bounds the exponent by \<open>Emax\<close> and \<open>Emin\<close>, and traps
  overflow and invalid operations, which are then exceptions.
\<close>

datatype decimal = Dec int int | Infinity | NegInfinity | NaN

definition prec :: int where "prec = 28"
definition Emax :: int where "Emax = 999999"
definition Emin :: int where "Emin = - 999999"
definition Etiny :: int where "Etiny = Emin - prec + 1"
definition Etop :: int where "Etop = Emax - prec + 1"

text \<open>The value of a finite decimal.\<close>

definition dec_val :: "int \<Rightarrow> int \<Rightarrow> rat" where
  "dec_val c e = (if 0 \<le> e then of_int c * 10 ^ nat e else of_int c / 10 ^ nat (- e))"

text \<open>The number of decimal digits of a coefficient; zero has the one digit \<^verbatim>\<open>0\<close>.\<close>

function ndigits :: "nat \<Rightarrow> nat" where
  "ndigits n = (if n < 10 then 1 else Suc (ndigits (n div 10)))"
  by pat_completeness auto
termination
  by (relation "measure id") auto

declare ndigits.simps [simp del]

text \<open>
  Dropping the last \<open>k\<close> digits of \<open>n\<close>, rounding half to even: up when the dropped part is
  more than half a unit of the kept part, or exactly half and the kept part is odd.
\<close>

definition round_half_even :: "nat \<Rightarrow> nat \<Rightarrow> nat" where
  "round_half_even n k =
     (let q = n div 10 ^ k; r = n mod 10 ^ k
      in if 2 * r > 10 ^ k \<or> (2 * r = 10 ^ k \<and> odd q) then q + 1 else q)"

text \<open>
  Rounding a finite result to the context (\<^verbatim>\<open>Decimal._fix\<close>). A zero keeps its value and has
  its exponent clamped. Otherwise the result overflows when even 28 digits leave its
  exponent above \<open>Etop\<close>; it is rounded when it has more than 28 digits or is subnormal
  (its exponent below \<open>Etiny\<close>); a rounding that carries into a 29th digit drops the new
  last zero.
\<close>

definition fix_dec :: "int \<Rightarrow> int \<Rightarrow> py_error + decimal" where
  "fix_dec c e =
     (let n = nat \<bar>c\<bar>; sg = (if c < 0 then - 1 else 1) in
      if n = 0 then Inr (Dec 0 (min (max e Etiny) Emax))
      else
        (let exp_min0 = int (ndigits n) + e - prec in
         if exp_min0 > Etop then Inl DecimalOverflow
         else
           (let exp_min = max exp_min0 Etiny in
            if e < exp_min then
              (let q = round_half_even n (nat (exp_min - e)) in
               if int (ndigits q) > prec then
                 (if exp_min + 1 > Etop then Inl DecimalOverflow
                  else Inr (Dec (sg * int (q div 10)) (exp_min + 1)))
               else Inr (Dec (sg * int q) exp_min))
            else Inr (Dec c e))))"

definition is_negative :: "decimal \<Rightarrow> bool" where
  "is_negative d = (case d of Dec c e \<Rightarrow> c < 0 | NegInfinity \<Rightarrow> True | _ \<Rightarrow> False)"

text \<open>
  \<^verbatim>\<open>x * y\<close>: a NaN operand gives NaN; an infinity times zero is an invalid operation, times
  anything else an infinity of the product's sign; a finite product is exact and then
  rounded to the context.
\<close>

fun dec_mul :: "decimal \<Rightarrow> decimal \<Rightarrow> py_error + decimal" where
  "dec_mul NaN y = Inr NaN"
| "dec_mul x NaN = Inr NaN"
| "dec_mul (Dec a e) (Dec b f) = fix_dec (a * b) (e + f)"
| "dec_mul x y =
     (if x = Dec 0 (case x of Dec c e \<Rightarrow> e | _ \<Rightarrow> 0) \<or> y = Dec 0 (case y of Dec c e \<Rightarrow> e | _ \<Rightarrow> 0)
      then Inl InvalidOperation
      else Inr (if is_negative x = is_negative y then Infinity else NegInfinity))"

text \<open>
  \<^verbatim>\<open>x / 10\<close>, the divisor being the integer 10. The exact quotient of \<open>Dec c e\<close> is
  \<open>Dec c (e - 1)\<close>, which the context then rounds as any result. (Python may return the
  same value with the exponent \<open>e\<close>, when \<open>c\<close> ends in a zero.)
\<close>

fun dec_div10 :: "decimal \<Rightarrow> py_error + decimal" where
  "dec_div10 (Dec c e) = fix_dec c (e - 1)"
| "dec_div10 x = Inr x"

text \<open>\<^verbatim>\<open>math.ceil(x)\<close>: an integer, exact; it raises on the special values.\<close>

fun dec_ceil :: "decimal \<Rightarrow> py_error + int" where
  "dec_ceil (Dec c e) = Inr \<lceil>dec_val c e\<rceil>"
| "dec_ceil NaN = Inl ValueError"
| "dec_ceil x = Inl OverflowError"

text \<open>
  \<^verbatim>\<open>calculate_amount_needed\<close>. \<^verbatim>\<open>OVERHEAD_FACTOR\<close> is a constant of the models module; it
  is the first argument here. The product of the integer from \<^verbatim>\<open>math.ceil\<close> with 10 is an
  integer, which \<^verbatim>\<open>Decimal(...)\<close> converts exactly.
\<close>

definition calculate_amount_needed :: "decimal \<Rightarrow> decimal \<Rightarrow> py_error + decimal" where
  "calculate_amount_needed OVERHEAD_FACTOR amount_requested =
     (case dec_mul amount_requested OVERHEAD_FACTOR of
        Inl err \<Rightarrow> Inl err
      | Inr amount_needed \<Rightarrow>
          (case dec_div10 amount_needed of
             Inl err \<Rightarrow> Inl err
           | Inr tenth \<Rightarrow>
               (case dec_ceil tenth of
                  Inl err \<Rightarrow> Inl err
                | Inr n \<Rightarrow> Inr (Dec (n * 10) 0))))"

text \<open>
  A finite decimal \<open>Dec m k\<close> that the context holds as it is: at most 28 digits, and an
  exponent within the bounds.
\<close>

definition fits_context :: "int \<Rightarrow> int \<Rightarrow> bool" where
  "fits_context m k =
     (int (ndigits (nat \<bar>m\<bar>)) \<le> prec \<and> Etiny \<le> k \<and> int (ndigits (nat \<bar>m\<bar>)) + k \<le> Emax + 1)"

type_synonym number = rat

subsection \<open>The data model\<close>

text \<open>
  The attributes the forms read and write. Field names carry a short prefix of their
  record, since several records of the source share attribute names. \<open>rq_costs\<close> is
  \<open>None\<close> for Python's \<^verbatim>\<open>None\<close>.
\<close>

record user_profile =
  u_email :: string
  u_first_name :: string
  u_last_name :: string
  u_address :: string

record foirequest =
  rq_title :: string
  rq_costs :: "number option"

record crowdfunding =
  cf_title :: string
  cf_kind :: string
  cf_description :: string
  cf_public_interest :: string
  cf_amount_requested :: decimal
  cf_amount_needed :: decimal
  cf_status :: string
  cf_user :: "user_profile option"
  cf_request :: "foirequest option"
  cf_slug :: string

record order =
  o_pk :: "nat option"
  o_user :: "user_profile option"
  o_first_name :: string
  o_last_name :: string
  street_address_1 :: string
  street_address_2 :: string
  o_city :: string
  o_postcode :: string
  o_country :: string
  user_email :: string
  total_net :: decimal
  total_gross :: decimal
  is_donation :: bool
  o_kind :: string
  o_description :: string

record contribution =
  cn_crowdfunding :: crowdfunding
  cn_user :: "user_profile option"
  cn_amount :: decimal
  cn_note :: string
  cn_public :: bool
  cn_order :: order

text \<open>The persistence store: the records created so far, oldest first.\<close>

record db =
  campaigns :: "crowdfunding list"
  orders :: "order list"
  contributions :: "contribution list"

subsection \<open>The collaborators\<close>

text \<open>
  What the module calls outside itself. \<open>slug_of\<close> makes a slug from a title and the slugs
  in use; \<open>describe\<close> is the translated description template with the campaign's title
  put in. A fault, when present, is the exception the collaborator raises on its next
  call.
\<close>

record env =
  slug_of :: "string \<Rightarrow> string list \<Rightarrow> string"
  describe :: "string \<Rightarrow> string"
  slug_fault :: "py_error option"
  order_fault :: "py_error option"
  contribution_fault :: "py_error option"

text \<open>
  Modelled from the spec: the persistence collaborator's "create and slugify"
  (\<^verbatim>\<open>save_obj_with_slug\<close> of froide, not part of this module). It gives the object a slug
  derived from its title and stores it; when it raises, nothing is stored.
\<close>

definition save_obj_with_slug ::
  "env \<Rightarrow> crowdfunding \<Rightarrow> db \<Rightarrow> py_error + (crowdfunding \<times> db)" where
  "save_obj_with_slug e obj store =
     (case slug_fault e of
        Some err \<Rightarrow> Inl err
      | None \<Rightarrow>
          (let obj' = obj\<lparr>cf_slug := slug_of e (cf_title obj) (map cf_slug (campaigns store))\<rparr>
           in Inr (obj', store\<lparr>campaigns := campaigns store @ [obj']\<rparr>)))"

text \<open>
  Modelled from the spec: the payment collaborator's \<^verbatim>\<open>createOrder(fields)\<close>
  (\<^verbatim>\<open>Order.objects.create\<close> of froide_payment). The new order gets the next primary key
  and is stored; when the call raises, nothing is stored.
\<close>

definition Order_objects_create ::
  "env \<Rightarrow> order \<Rightarrow> db \<Rightarrow> py_error + (order \<times> db)" where
  "Order_objects_create e vals store =
     (case order_fault e of
        Some err \<Rightarrow> Inl err
      | None \<Rightarrow>
          (let obj = vals\<lparr>o_pk := Some (length (orders store))\<rparr>
           in Inr (obj, store\<lparr>orders := orders store @ [obj]\<rparr>)))"

text \<open>
  Modelled from the spec: \<^verbatim>\<open>createRecord\<close> for a Contribution
  (\<^verbatim>\<open>Contribution.objects.create\<close>; the model class is declared in the models module).
\<close>

definition Contribution_objects_create ::
  "env \<Rightarrow> contribution \<Rightarrow> db \<Rightarrow> py_error + (contribution \<times> db)" where
  "Contribution_objects_create e vals store =
     (case contribution_fault e of
        Some err \<Rightarrow> Inl err
      | None \<Rightarrow> Inr (vals, store\<lparr>contributions := contributions store @ [vals]\<rparr>))"

subsection \<open>The campaign-start form\<close>

text \<open>
  \<open>start_fields\<close> is what the form is after the base class's initialiser: the declared
  fields' initial values and choices, the model instance the form fills, and the outcome
  of the framework's field-level validation of the submitted data (the errors by field,
  and \<^verbatim>\<open>cleaned_data\<close>). \<open>start_form\<close> adds the three attributes the subclass keeps.
\<close>

record start_cleaned =
  sc_title :: string
  sc_kind :: string
  sc_description :: string
  sc_public_interest :: string
  sc_amount_requested :: decimal
  sc_terms :: bool

record start_fields =
  title_initial :: "string option"
  amount_requested_initial :: number
  kind_choices :: "(string \<times> string) list"
  form_instance :: crowdfunding
  field_errors :: "(string \<times> string) list"
  cleaned_data :: start_cleaned

record start_form = start_fields +
  sf_foirequest :: "foirequest option"
  sf_crowdfundings :: "crowdfunding list option"
  sf_user :: "user_profile option"

text \<open>
  The fields as the class declares them: no initial title, an initial amount of 10, and a
  \<^verbatim>\<open>ChoiceField\<close> for the kind that is declared without choices.
\<close>

definition declared_start_fields ::
  "crowdfunding \<Rightarrow> (string \<times> string) list \<Rightarrow> start_cleaned \<Rightarrow> start_fields" where
  "declared_start_fields inst errs d =
     \<lparr>title_initial = None, amount_requested_initial = 10, kind_choices = [],
      form_instance = inst, field_errors = errs, cleaned_data = d\<rparr>"

text \<open>
  \<^verbatim>\<open>CrowdfundingRequestStartForm.__init__\<close>. \<^verbatim>\<open>KIND_CHOICES\<close> is a constant of the model
  class, an argument here; the three keyword arguments default to \<^verbatim>\<open>None\<close>. Reading
  \<^verbatim>\<open>self.foirequest.costs\<close> raises AttributeError when the request is \<^verbatim>\<open>None\<close>; the costs
  count as present when they are neither \<^verbatim>\<open>None\<close> nor zero.
\<close>

definition CrowdfundingRequestStartForm_init ::
  "(string \<times> string) list \<Rightarrow> start_fields \<Rightarrow> foirequest option \<Rightarrow>
   crowdfunding list option \<Rightarrow> user_profile option \<Rightarrow> py_error + start_form" where
  "CrowdfundingRequestStartForm_init KIND_CHOICES base foirequest crowdfundings user =
     (let form0 = start_fields.extend base
                    \<lparr>sf_foirequest = foirequest, sf_crowdfundings = crowdfundings,
                     sf_user = user\<rparr>;
          form1 = (case foirequest of
                     Some r \<Rightarrow> form0\<lparr>title_initial := Some (rq_title r)\<rparr>
                   | None \<Rightarrow> form0)
      in case foirequest of
           None \<Rightarrow> Inl AttributeError
         | Some r \<Rightarrow>
             (let form2 = (case rq_costs r of
                             Some c \<Rightarrow> if c \<noteq> 0 then form1\<lparr>amount_requested_initial := c\<rparr>
                                       else form1
                           | None \<Rightarrow> form1);
                  form3 = (case crowdfundings of
                             Some cs \<Rightarrow>
                               (let existing_kinds = set (map cf_kind cs)
                                in form2\<lparr>kind_choices :=
                                     filter (\<lambda>c. fst c \<notin> existing_kinds) KIND_CHOICES\<rparr>)
                           | None \<Rightarrow> form2)
              in Inr form3))"

definition can_start_crowdfunding :: "crowdfunding list \<Rightarrow> bool" where
  "can_start_crowdfunding crowdfundings =
     (if list_ex (\<lambda>c. cf_status c \<noteq> ''finished'') crowdfundings then False else True)"

text \<open>
  \<^verbatim>\<open>CrowdfundingRequestStartForm.clean\<close>. Iterating over \<^verbatim>\<open>None\<close> raises TypeError.
\<close>

definition CrowdfundingRequestStartForm_clean :: "start_form \<Rightarrow> py_error + start_cleaned" where
  "CrowdfundingRequestStartForm_clean form =
     (case sf_crowdfundings form of
        None \<Rightarrow> Inl TypeError
      | Some cs \<Rightarrow>
          if \<not> can_start_crowdfunding cs
          then Inl (ValidationError ''You have an ongoing crowdfunding.'')
          else Inr (cleaned_data form))"

text \<open>
  The framework's part of validation and saving, as far as the module relies on it. The
  form's errors are the field errors and the form-level ones: a \<^verbatim>\<open>ValidationError\<close> that
  \<^verbatim>\<open>clean\<close> raises is caught and becomes the form-level error, any other exception goes
  on to the caller. The base class's \<^verbatim>\<open>save(commit=False)\<close> raises ValueError when the
  form has errors, and otherwise returns the instance with the form's model fields set
  from \<^verbatim>\<open>cleaned_data\<close>.
\<close>

definition full_clean :: "start_form \<Rightarrow> py_error + ((string \<times> string) list \<times> string list)" where
  "full_clean form =
     (case CrowdfundingRequestStartForm_clean form of
        Inl (ValidationError msg) \<Rightarrow> Inr (field_errors form, [msg])
      | Inl err \<Rightarrow> Inl err
      | Inr d \<Rightarrow> Inr (field_errors form, []))"

definition construct_instance :: "start_cleaned \<Rightarrow> crowdfunding \<Rightarrow> crowdfunding" where
  "construct_instance d inst =
     inst\<lparr>cf_title := sc_title d, cf_kind := sc_kind d, cf_description := sc_description d,
          cf_public_interest := sc_public_interest d,
          cf_amount_requested := sc_amount_requested d\<rparr>"

definition ModelForm_save :: "start_form \<Rightarrow> py_error + crowdfunding" where
  "ModelForm_save form =
     (case full_clean form of
        Inl err \<Rightarrow> Inl err
      | Inr (ferrs, nferrs) \<Rightarrow>
          if ferrs \<noteq> [] \<or> nferrs \<noteq> [] then Inl ValueError
          else Inr (construct_instance (cleaned_data form) (form_instance form)))"

text \<open>
  \<^verbatim>\<open>CrowdfundingRequestStartForm.save\<close>: the result, and the store afterwards.
\<close>

definition CrowdfundingRequestStartForm_save ::
  "env \<Rightarrow> decimal \<Rightarrow> start_form \<Rightarrow> db \<Rightarrow> (py_error + crowdfunding) \<times> db" where
  "CrowdfundingRequestStartForm_save e OVERHEAD_FACTOR form store =
     (case ModelForm_save form of
        Inl err \<Rightarrow> (Inl err, store)
      | Inr obj \<Rightarrow>
          (let obj1 = obj\<lparr>cf_user := sf_user form\<rparr>;
               obj2 = obj1\<lparr>cf_request := sf_foirequest form\<rparr>
           in case calculate_amount_needed OVERHEAD_FACTOR (cf_amount_requested obj2) of
                Inl err \<Rightarrow> (Inl err, store)
              | Inr amount_needed \<Rightarrow>
                  (let obj3 = obj2\<lparr>cf_amount_needed := amount_needed\<rparr>
                   in case save_obj_with_slug e obj3 store of
                        Inl err \<Rightarrow> (Inl err, store)
                      | Inr (saved, store') \<Rightarrow> (Inr saved, store'))))"

subsection \<open>The contribution form\<close>

record contribution_cleaned =
  d_amount :: decimal
  d_note :: string
  d_first_name :: string
  d_last_name :: string
  d_public :: bool
  d_address :: string
  d_postcode :: string
  d_city :: string
  d_country :: string
  d_email :: string
  d_method :: string
  d_terms :: bool

record contribution_fields =
  email_initial :: "string option"
  first_name_initial :: "string option"
  last_name_initial :: "string option"
  address_initial :: "string option"
  postcode_initial :: "string option"
  city_initial :: "string option"
  cleaned :: contribution_cleaned

record contribution_form = contribution_fields +
  cb_user :: "user_profile option"
  cb_crowdfunding :: "crowdfunding option"

text \<open>\<^verbatim>\<open>parsed.get(key, default)\<close>.\<close>

definition dict_get :: "('k \<rightharpoonup> 'v) \<Rightarrow> 'k \<Rightarrow> 'v \<Rightarrow> 'v" where
  "dict_get m k dflt = (case m k of None \<Rightarrow> dflt | Some v \<Rightarrow> v)"

text \<open>
  \<^verbatim>\<open>ContributionForm.__init__\<close>: an exception of \<^verbatim>\<open>parse_address\<close> is not caught.
\<close>

definition ContributionForm_init ::
  "contribution_fields \<Rightarrow> user_profile option \<Rightarrow> crowdfunding option \<Rightarrow>
   py_error + contribution_form" where
  "ContributionForm_init base user crowdfunding =
     (let form0 = contribution_fields.extend base
                    \<lparr>cb_user = user, cb_crowdfunding = crowdfunding\<rparr>
      in case user of
           None \<Rightarrow> Inr form0
         | Some u \<Rightarrow>
             (case parse_address (u_address u) of
                Inl err \<Rightarrow> Inl err
              | Inr parsed \<Rightarrow>
                  Inr (form0\<lparr>email_initial := Some (u_email u),
                             first_name_initial := Some (u_first_name u),
                             last_name_initial := Some (u_last_name u),
                             address_initial := Some (dict_get parsed ''address'' []),
                             postcode_initial := Some (dict_get parsed ''postcode'' []),
                             city_initial := Some (dict_get parsed ''city'' [])\<rparr>)))"

text \<open>
  What the declaration of the address field (a required \<^verbatim>\<open>CharField\<close> of at most 255
  characters, stripped by default) makes of a valid submission's address: not empty, no
  white space at either end.
\<close>

definition address_valid :: "string \<Rightarrow> bool" where
  "address_valid s = (s \<noteq> [] \<and> strip s = s \<and> length s \<le> 255)"

text \<open>
  \<^verbatim>\<open>ContributionForm.save\<close>: the result, and the store afterwards. The arguments of
  \<^verbatim>\<open>Order.objects.create\<close> are evaluated before the call, in their order:
  \<^verbatim>\<open>address_lines[0]\<close> raises IndexError on an empty list, \<^verbatim>\<open>self.crowdfunding.title\<close>
  raises AttributeError when the campaign is \<^verbatim>\<open>None\<close>.
\<close>

definition ContributionForm_save ::
  "env \<Rightarrow> contribution_form \<Rightarrow> db \<Rightarrow> (py_error + contribution) \<times> db" where
  "ContributionForm_save e form store =
     (let d = cleaned form;
          address_lines = splitlines (d_address d)
      in case address_lines of
           [] \<Rightarrow> (Inl IndexError, store)
         | line # rest \<Rightarrow>
             (case cb_crowdfunding form of
                None \<Rightarrow> (Inl AttributeError, store)
              | Some campaign \<Rightarrow>
                  (case Order_objects_create e
                          \<lparr>o_pk = None,
                           o_user = cb_user form,
                           o_first_name = d_first_name d,
                           o_last_name = d_last_name d,
                           street_address_1 = line,
                           street_address_2 = join ''\<newline>'' rest,
                           o_city = d_city d,
                           o_postcode = d_postcode d,
                           o_country = d_country d,
                           user_email = d_email d,
                           total_net = d_amount d,
                           total_gross = d_amount d,
                           is_donation = True,
                           o_kind = ''froide_crowdfunding.Contribution'',
                           o_description = describe e (cf_title campaign)\<rparr> store of
                     Inl err \<Rightarrow> (Inl err, store)
                   | Inr (ord, store1) \<Rightarrow>
                       (case Contribution_objects_create e
                               \<lparr>cn_crowdfunding = campaign,
                                cn_user = cb_user form,
                                cn_amount = d_amount d,
                                cn_note = d_note d,
                                cn_public = d_public d,
                                cn_order = ord\<rparr> store1 of
                          Inl err \<Rightarrow> (Inl err, store1)
                        | Inr (contrib, store2) \<Rightarrow> (Inr contrib, store2)))))"

subsection \<open>The kind filter as the specification words it\<close>

text \<open>
  The specification's sentence on the offered kinds: the configured choices without the
  kinds that a campaign of the request with a status other than \<^verbatim>\<open>finished\<close> uses.
\<close>

definition spec_offered_kinds ::
  "(string \<times> string) list \<Rightarrow> crowdfunding list \<Rightarrow> (string \<times> string) list" where
  "spec_offered_kinds KIND_CHOICES cs =
     filter (\<lambda>c. fst c \<notin> set (map cf_kind (filter (\<lambda>x. cf_status x \<noteq> ''finished'') cs)))
       KIND_CHOICES"

subsection \<open>Concrete data for the instances below\<close>

definition kinds0 :: "(string \<times> string) list" where
  "kinds0 = [(''fees'', ''Fees''), (''lawsuit'', ''Lawsuit'')]"

definition request0 :: foirequest where
  "request0 = \<lparr>rq_title = ''Budget report'', rq_costs = Some 50\<rparr>"

definition user0 :: user_profile where
  "user0 = \<lparr>u_email = ''a@example.org'', u_first_name = ''Ada'', u_last_name = ''Low'',
             u_address = ''Main Street 1\<newline>12345 Springfield''\<rparr>"

definition campaign0 :: "string \<Rightarrow> crowdfunding" where
  "campaign0 st =
     \<lparr>cf_title = ''Fees for the report'', cf_kind = ''fees'', cf_description = ''d'',
      cf_public_interest = ''p'', cf_amount_requested = Dec 50 0, cf_amount_needed = Dec 60 0,
      cf_status = st, cf_user = None, cf_request = Some request0, cf_slug = ''fees''\<rparr>"

definition blank0 :: crowdfunding where
  "blank0 =
     \<lparr>cf_title = [], cf_kind = [], cf_description = [], cf_public_interest = [],
      cf_amount_requested = Dec 0 0, cf_amount_needed = Dec 0 0, cf_status = ''needs_approval'',
      cf_user = None, cf_request = None, cf_slug = []\<rparr>"

definition start_data0 :: start_cleaned where
  "start_data0 =
     \<lparr>sc_title = ''Court costs'', sc_kind = ''lawsuit'', sc_description = ''d'',
      sc_public_interest = ''p'', sc_amount_requested = Dec 1000 (- 2), sc_terms = True\<rparr>"

definition base0 :: start_fields where
  "base0 = declared_start_fields blank0 [] start_data0"

definition start_form0 :: "string \<Rightarrow> start_form" where
  "start_form0 st =
     start_fields.extend (base0\<lparr>title_initial := Some ''Budget report'',
                               amount_requested_initial := 50,
                               kind_choices := [(''lawsuit'', ''Lawsuit'')]\<rparr>)
       \<lparr>sf_foirequest = Some request0, sf_crowdfundings = Some [campaign0 st],
        sf_user = Some user0\<rparr>"

definition env0 :: "py_error option \<Rightarrow> env" where
  "env0 fault =
     \<lparr>slug_of = (\<lambda>title used. title), describe = (\<lambda>title. title), slug_fault = None,
      order_fault = fault, contribution_fault = None\<rparr>"

definition store0 :: db where
  "store0 = \<lparr>campaigns = [campaign0 ''finished''], orders = [], contributions = []\<rparr>"

definition contribution_data0 :: contribution_cleaned where
  "contribution_data0 =
     \<lparr>d_amount = Dec 2500 (- 2), d_note = [], d_first_name = ''Ada'', d_last_name = ''Low'',
      d_public = False, d_address = ''Main Street 1\<newline>c/o Low'', d_postcode = ''12345'',
      d_city = ''Springfield'', d_country = ''DE'', d_email = ''a@example.org'',
      d_method = ''creditcard'', d_terms = True\<rparr>"

definition contribution_form0 :: contribution_form where
  "contribution_form0 =
     \<lparr>email_initial = None, first_name_initial = None, last_name_initial = None,
      address_initial = None, postcode_initial = None, city_initial = None,
      cleaned = contribution_data0, cb_user = None,
      cb_crowdfunding = Some (campaign0 ''running'')\<rparr>"

section \<open>Properties\<close>

subsection \<open>Address parsing\<close>









text \<open>
  Claim C8. \<^verbatim>\<open>parse_address("Main Street 1\n12345 Springfield")\<close> is the dict with
  street address \<^verbatim>\<open>Main Street 1\<close>, postcode \<^verbatim>\<open>12345\<close> and city \<^verbatim>\<open>Springfield\<close>.
\<close>

theorem parse_address_example:
  "parse_address ''Main Street 1\<newline>12345 Springfield'' =
     Inr [''address'' \<mapsto> ''Main Street 1'', ''postcode'' \<mapsto> ''12345'',
          ''city'' \<mapsto> ''Springfield'']"
  by (simp add: parse_address_def match_here_def is_digit_def is_space_def is_linebreak_def
        group0_def strip_def splitlines_def)

text \<open>
  Claim C2. The claim is that \<^verbatim>\<open>parse_address\<close> never raises. On an address that is
  nothing but the postcode line, the text left after removing the match is empty,
  \<^verbatim>\<open>splitlines\<close> returns the empty list and \<^verbatim>\<open>refined[0]\<close> raises IndexError.
\<close>

theorem parse_address_raises:
  "parse_address ''12345 Berlin'' = Inl IndexError"
  by (simp add: parse_address_def match_here_def is_digit_def is_space_def is_linebreak_def
        group0_def strip_def splitlines_def)

text \<open>
  The exception reaches the caller of the contribution form: for a known user whose stored
  address is such a line, the initialiser raises instead of falling back to the empty
  defaults of \<^verbatim>\<open>parsed.get\<close>.
\<close>

lemma ContributionForm_init_raises:
  "ContributionForm_init base (Some (user0\<lparr>u_address := ''12345 Berlin''\<rparr>)) campaign =
     Inl IndexError"
  by (simp add: ContributionForm_init_def Let_def parse_address_def match_here_def is_digit_def
        is_space_def is_linebreak_def group0_def strip_def splitlines_def)

lemma ContributionForm_init_defaults:
  "ContributionForm_init base (Some (user0\<lparr>u_address := ''no postcode here''\<rparr>)) campaign =
     Inr (contribution_fields.extend
            (base\<lparr>email_initial := Some ''a@example.org'', first_name_initial := Some ''Ada'',
                  last_name_initial := Some ''Low'', address_initial := Some [],
                  postcode_initial := Some [], city_initial := Some []\<rparr>)
            \<lparr>cb_user = Some (user0\<lparr>u_address := ''no postcode here''\<rparr>),
             cb_crowdfunding = campaign\<rparr>)"
  by (simp add: ContributionForm_init_def Let_def parse_address_def match_here_def is_digit_def
        dict_get_def user0_def contribution_fields.defs)

subsection \<open>The funding target\<close>





lemma less_pow_ndigits: "n < 10 ^ ndigits n"
proof (induction n rule: ndigits.induct)
  case (1 n)
  show ?case
  proof (cases "n < 10")
    case True
    then show ?thesis by (simp add: ndigits.simps)
  next
    case False
    with 1 have "n div 10 < 10 ^ ndigits (n div 10)" by simp
    then have "n < 10 * 10 ^ ndigits (n div 10)" by arith
    with False show ?thesis by (simp add: ndigits.simps [of n])
  qed
qed

lemma ndigits_le: "0 < p \<Longrightarrow> n < 10 ^ p \<Longrightarrow> ndigits n \<le> p"
proof (induction n arbitrary: p rule: ndigits.induct)
  case (1 n)
  show ?case
  proof (cases "n < 10")
    case True
    with 1(2) show ?thesis by (simp add: ndigits.simps)
  next
    case False
    from 1(2) obtain p' where p: "p = Suc p'" by (cases p) auto
    with 1(3) have "n div 10 < 10 ^ p'" by (simp add: less_mult_imp_div_less mult.commute)
    moreover from False 1(3) p have "0 < p'" by (cases p') auto
    ultimately have "ndigits (n div 10) \<le> p'" using 1(1) False by simp
    with False p show ?thesis by (simp add: ndigits.simps [of n])
  qed
qed

lemma ndigits_pos: "0 < ndigits n"
  by (simp add: ndigits.simps [of n])

lemma ndigits_mult_le: "ndigits (a * b) \<le> ndigits a + ndigits b"
proof -
  have "a * b < 10 ^ ndigits a * 10 ^ ndigits b"
    using less_pow_ndigits [of a] less_pow_ndigits [of b] by (intro mult_strict_mono) simp_all
  then have "a * b < 10 ^ (ndigits a + ndigits b)" by (simp add: power_add)
  moreover have "0 < ndigits a + ndigits b" using ndigits_pos [of a] by simp
  ultimately show ?thesis by (intro ndigits_le)
qed

text \<open>
  The amounts the forms admit have at most 10 digits: with a factor of at most 18 digits
  their product has at most 28 and is not rounded.
\<close>

lemma form_product_fits_precision:
  assumes "ndigits (nat \<bar>c\<bar>) \<le> 10" and "ndigits (nat \<bar>d\<bar>) \<le> 18"
  shows "int (ndigits (nat \<bar>c * d\<bar>)) \<le> prec"
proof -
  have "nat \<bar>c * d\<bar> = nat \<bar>c\<bar> * nat \<bar>d\<bar>"
    by (simp add: abs_mult nat_mult_distrib)
  with ndigits_mult_le [of "nat \<bar>c\<bar>" "nat \<bar>d\<bar>"] assms show ?thesis
    by (simp add: prec_def)
qed

lemma fix_dec_exact: "fits_context m k \<Longrightarrow> fix_dec m k = Inr (Dec m k)"
  using ndigits_pos [of "nat \<bar>m\<bar>"]
  by (auto simp: fits_context_def fix_dec_def Let_def prec_def Emax_def Emin_def Etiny_def
        Etop_def ndigits.simps [of 0])


lemma round_half_even_le:
  assumes "ndigits n \<le> k + p"
  shows "round_half_even n k \<le> 10 ^ p"
proof -
  have "n < 10 ^ ndigits n" by (rule less_pow_ndigits)
  also have "(10::nat) ^ ndigits n \<le> 10 ^ (k + p)"
    using assms by (intro power_increasing) simp_all
  finally have "n < 10 ^ p * 10 ^ k" by (simp add: power_add mult.commute)
  then have "n div 10 ^ k < 10 ^ p" by (rule less_mult_imp_div_less)
  then show ?thesis by (simp add: round_half_even_def Let_def)
qed

lemma ndigits_div10_le:
  assumes "q \<le> 10 ^ 28"
  shows "ndigits (q div 10) \<le> 28"
proof -
  from assms have "q div 10 \<le> 10 ^ 27" by simp
  then have "q div 10 < 10 ^ 28" by simp
  then show ?thesis by (intro ndigits_le) simp_all
qed

lemma fix_dec_returns:
  assumes "int (ndigits (nat \<bar>m\<bar>)) + k - prec < Etop"
  shows "\<exists>m' k'. fix_dec m k = Inr (Dec m' k') \<and>
           int (ndigits (nat \<bar>m'\<bar>)) + k' - prec \<le> Etop"
proof (cases "nat \<bar>m\<bar> = 0")
  case True
  have "int (ndigits (nat \<bar>0::int\<bar>)) + min (max k Etiny) Emax - prec \<le> Etop"
    by (simp add: ndigits.simps [of 0] Etop_def)
  moreover from True have "fix_dec m k = Inr (Dec 0 (min (max k Etiny) Emax))"
    by (simp only: fix_dec_def Let_def if_True simp_thms)
  ultimately show ?thesis by blast
next
  case nz: False
  let ?n = "nat \<bar>m\<bar>"
  let ?sg = "if m < 0 then - 1 else (1::int)"
  let ?e0 = "int (ndigits ?n) + k - prec"
  let ?em = "max ?e0 Etiny"
  let ?q = "round_half_even ?n (nat (?em - k))"
  have tiny: "Etiny < Etop"
    by (simp add: Etiny_def Etop_def Emin_def Emax_def)
  from assms have novf: "\<not> ?e0 > Etop" by simp
  from assms tiny have lt: "?em < Etop" by linarith
  then have novf2: "\<not> ?em + 1 > Etop" by linarith
  show ?thesis
  proof (cases "k < ?em")
    case False
    from nz novf False have "fix_dec m k = Inr (Dec m k)"
      by (simp only: fix_dec_def Let_def if_False simp_thms)
    with assms show ?thesis by auto
  next
    case True
    have "int (ndigits ?n) \<le> ?em - k + 28"
      by (simp add: prec_def)
    with True have "ndigits ?n \<le> nat (?em - k) + 28" by linarith
    then have q: "?q \<le> 10 ^ 28"
      by (rule round_half_even_le)
    show ?thesis
    proof (cases "int (ndigits ?q) > prec")
      case carry: True
      have abs: "nat \<bar>?sg * int (?q div 10)\<bar> = ?q div 10"
        by (simp add: abs_mult)
      from nz novf True carry novf2 have
        "fix_dec m k = Inr (Dec (?sg * int (?q div 10)) (?em + 1))"
        by (simp only: fix_dec_def Let_def if_False if_True simp_thms)
      moreover have "int (ndigits (nat \<bar>?sg * int (?q div 10)\<bar>)) + (?em + 1) - prec \<le> Etop"
      proof -
        have "int (ndigits (?q div 10)) \<le> 28"
          using ndigits_div10_le [OF q] by simp
        with lt have "int (ndigits (?q div 10)) + (?em + 1) - prec \<le> Etop"
          unfolding prec_def by linarith
        then show ?thesis by (simp only: abs)
      qed
      ultimately show ?thesis by blast
    next
      case False
      have abs: "nat \<bar>?sg * int ?q\<bar> = ?q"
        by (simp add: abs_mult)
      from nz novf True False have
        "fix_dec m k = Inr (Dec (?sg * int ?q) ?em)"
        by (simp only: fix_dec_def Let_def if_False if_True simp_thms)
      moreover have "int (ndigits (nat \<bar>?sg * int ?q\<bar>)) + ?em - prec \<le> Etop"
      proof -
        from False lt have "int (ndigits ?q) + ?em - prec \<le> Etop"
          by linarith
        then show ?thesis by (simp only: abs)
      qed
      ultimately show ?thesis by blast
    qed
  qed
qed


lemma calculate_amount_needed_returns:
  assumes "int (ndigits (nat \<bar>c * d\<bar>)) + (e + g) - prec < Etop"
  shows "\<exists>r. calculate_amount_needed (Dec d g) (Dec c e) = Inr (Dec (10 * r) 0)"
proof -
  from fix_dec_returns [OF assms] obtain m k where
    1: "fix_dec (c * d) (e + g) = Inr (Dec m k)"
    and "int (ndigits (nat \<bar>m\<bar>)) + k - prec \<le> Etop"
    by blast
  then have "int (ndigits (nat \<bar>m\<bar>)) + (k - 1) - prec < Etop" by simp
  from fix_dec_returns [OF this] obtain m' k' where
    2: "fix_dec m (k - 1) = Inr (Dec m' k')"
    by blast
  from 1 2 have "calculate_amount_needed (Dec d g) (Dec c e) =
      Inr (Dec (10 * \<lceil>dec_val m' k'\<rceil>) 0)"
    by (simp add: calculate_amount_needed_def mult.commute)
  then show ?thesis by blast
qed

text \<open>
  Claim C1, as the specification states it: for every non-negative decimal and a factor
  above 1 the result would be at least the amount times the factor. For an amount of 29
  digits the product is rounded down to 10 before it is rounded up to a multiple of 10,
  and the result 10 is below the exact product; for the non-negative decimal
  \<^verbatim>\<open>Infinity\<close> the function raises.
\<close>

theorem calculate_amount_needed_counterexample:
  "calculate_amount_needed (Dec 115 (- 2)) (Dec 86956521739130434782608695653 (- 28)) =
     Inr (Dec 10 0) \<and>
   dec_val 10 0 < dec_val 86956521739130434782608695653 (- 28) * dec_val 115 (- 2) \<and>
   calculate_amount_needed (Dec 115 (- 2)) Infinity = Inl OverflowError"
proof (intro conjI)
  have nd: "ndigits 10000000000000000000000000000095 = 32" "ndigits 1000000000000000000000000000 = 28"
    by (simp_all add: ndigits.simps)
  have r: "round_half_even 10000000000000000000000000000095 4 = 1000000000000000000000000000"
    by (simp add: round_half_even_def Let_def)
  have m: "dec_mul (Dec 86956521739130434782608695653 (- 28)) (Dec 115 (- 2)) =
      Inr (Dec 1000000000000000000000000000 (- 26))"
    by (simp add: fix_dec_def Let_def nd r prec_def Emax_def Emin_def Etiny_def Etop_def)
  have d: "dec_div10 (Dec 1000000000000000000000000000 (- 26)) =
      Inr (Dec 1000000000000000000000000000 (- 27))"
    by (simp add: fix_dec_def Let_def nd prec_def Emax_def Emin_def Etiny_def Etop_def)
  have c: "dec_ceil (Dec 1000000000000000000000000000 (- 27)) = Inr 1"
    by (simp add: dec_val_def)
  show "calculate_amount_needed (Dec 115 (- 2)) (Dec 86956521739130434782608695653 (- 28)) =
     Inr (Dec 10 0)"
    using m d c by (simp add: calculate_amount_needed_def)
  show "dec_val 10 0 < dec_val 86956521739130434782608695653 (- 28) * dec_val 115 (- 2)"
    by (simp add: dec_val_def)
  show "calculate_amount_needed (Dec 115 (- 2)) Infinity = Inl OverflowError"
    by (simp add: calculate_amount_needed_def is_negative_def)
qed




subsection \<open>The contribution form\<close>

lemma linebreak_is_space: "is_linebreak c \<Longrightarrow> is_space c"
  by (auto simp: is_linebreak_def is_space_def)

lemma splitlines_from_nonempty: "cur \<noteq> [] \<Longrightarrow> splitlines_from cur s \<noteq> []"
  by (induction cur s rule: splitlines_from.induct) auto


lemma stripped_hd:
  assumes "s \<noteq> []" and "strip s = s"
  shows "\<not> is_space (hd s)"
proof
  assume sp: "is_space (hd s)"
  from assms(1) obtain c cs where s: "s = c # cs" by (cases s) auto
  with sp have "dropWhile is_space s = dropWhile is_space cs" by simp
  then have "length (dropWhile is_space s) \<le> length cs"
    by (simp add: length_dropWhile_le)
  moreover have "length (strip s) \<le> length (dropWhile is_space s)"
    using length_dropWhile_le [of is_space "rev (dropWhile is_space s)"]
    by (simp add: strip_def)
  ultimately have "length (strip s) < length s" using s by simp
  with assms(2) show False by simp
qed

lemma address_valid_lines:
  assumes "address_valid s"
  shows "splitlines s \<noteq> []"
proof -
  from assms have ne: "s \<noteq> []" and st: "strip s = s" by (simp_all add: address_valid_def)
  from ne obtain c cs where s: "s = c # cs" by (cases s) auto
  from stripped_hd [OF ne st] s have nb: "\<not> is_linebreak c"
    using linebreak_is_space by auto
  then have "c \<noteq> CHR 0x0D" by (auto simp: is_linebreak_def)
  with nb have "splitlines_from [] (c # cs) = splitlines_from [c] cs"
    by (cases cs) auto
  with s show ?thesis
    by (simp add: splitlines_def splitlines_from_nonempty)
qed

text \<open>
  Claim C5. For a valid contribution submission to a campaign, saving creates one Order and
  then one Contribution that references it; when the creation of the Order fails, the
  exception goes to the caller and the store is as before: no Contribution is created.
\<close>

theorem contribution_save_order_then_contribution:
  assumes valid: "address_valid (d_address (cleaned form))"
    and camp: "cb_crowdfunding form = Some campaign"
  shows "(order_fault e = None \<and> contribution_fault e = None \<longrightarrow>
            (\<exists>ord contrib.
               ContributionForm_save e form store =
                 (Inr contrib,
                  store\<lparr>orders := orders store @ [ord],
                        contributions := contributions store @ [contrib]\<rparr>) \<and>
               cn_order contrib = ord \<and> o_pk ord = Some (length (orders store)))) \<and>
         (\<forall>err. order_fault e = Some err \<longrightarrow>
            ContributionForm_save e form store = (Inl err, store))"
proof -
  from address_valid_lines [OF valid] obtain l ls
    where lines: "splitlines (d_address (cleaned form)) = l # ls"
    by (cases "splitlines (d_address (cleaned form))") auto
  have good: "\<exists>ord contrib.
               ContributionForm_save e form store =
                 (Inr contrib,
                  store\<lparr>orders := orders store @ [ord],
                        contributions := contributions store @ [contrib]\<rparr>) \<and>
               cn_order contrib = ord \<and> o_pk ord = Some (length (orders store))"
    if "order_fault e = None" and "contribution_fault e = None"
    using that lines camp
    by (simp add: ContributionForm_save_def Let_def Order_objects_create_def
          Contribution_objects_create_def)
  have bad: "ContributionForm_save e form store = (Inl err, store)"
    if "order_fault e = Some err" for err
    using that lines camp
    by (simp add: ContributionForm_save_def Let_def Order_objects_create_def)
  from good bad show ?thesis by blast
qed

theorem contribution_save_order_then_contribution_witness:
  "address_valid (d_address (cleaned contribution_form0)) \<and>
   cb_crowdfunding contribution_form0 = Some (campaign0 ''running'') \<and>
   length (orders (snd (ContributionForm_save (env0 None) contribution_form0 store0))) = 1 \<and>
   length (contributions (snd (ContributionForm_save (env0 None) contribution_form0 store0))) = 1 \<and>
   ContributionForm_save (env0 (Some (CollaboratorFailure ''down''))) contribution_form0 store0 =
     (Inl (CollaboratorFailure ''down''), store0)"
proof -
  have v: "address_valid (d_address (cleaned contribution_form0))"
    by (simp add: address_valid_def contribution_form0_def contribution_data0_def strip_def
          is_space_def)
  have c: "cb_crowdfunding contribution_form0 = Some (campaign0 ''running'')"
    by (simp add: contribution_form0_def)
  have f: "order_fault (env0 None) = None \<and> contribution_fault (env0 None) = None"
    "order_fault (env0 (Some (CollaboratorFailure ''down''))) = Some (CollaboratorFailure ''down'')"
    by (simp_all add: env0_def)
  from contribution_save_order_then_contribution [OF v c, of "env0 None" store0] f(1)
  obtain ord contrib where
    "ContributionForm_save (env0 None) contribution_form0 store0 =
       (Inr contrib, store0\<lparr>orders := orders store0 @ [ord],
                             contributions := contributions store0 @ [contrib]\<rparr>)"
    by blast
  then have n: "length (orders (snd (ContributionForm_save (env0 None) contribution_form0 store0))) = 1"
    "length (contributions (snd (ContributionForm_save (env0 None) contribution_form0 store0))) = 1"
    by (simp_all add: store0_def)
  from contribution_save_order_then_contribution
         [OF v c, of "env0 (Some (CollaboratorFailure ''down''))" store0] f(2)
  have "ContributionForm_save (env0 (Some (CollaboratorFailure ''down''))) contribution_form0 store0 =
     (Inl (CollaboratorFailure ''down''), store0)"
    by blast
  with v c n show ?thesis by (intro conjI)
qed



subsection \<open>The campaign-start form\<close>

text \<open>
  Claim C10. With the request absent, the initialiser raises (AttributeError, on reading the
  costs of \<^verbatim>\<open>None\<close>) whatever the other arguments are; an initialisation that returns a
  form had a request, so the title default never takes its absent-request branch in one.
\<close>

theorem init_without_request_raises:
  "CrowdfundingRequestStartForm_init kc base None cs u = Inl AttributeError \<and>
   (\<forall>form. CrowdfundingRequestStartForm_init kc base rq cs u = Inr form \<longrightarrow>
      rq \<noteq> None \<and> sf_foirequest form = rq \<and>
      title_initial form = Some (rq_title (the rq)))"
proof
  show "CrowdfundingRequestStartForm_init kc base None cs u = Inl AttributeError"
    by (simp add: CrowdfundingRequestStartForm_init_def)
  show "\<forall>form. CrowdfundingRequestStartForm_init kc base rq cs u = Inr form \<longrightarrow>
      rq \<noteq> None \<and> sf_foirequest form = rq \<and>
      title_initial form = Some (rq_title (the rq))"
    by (cases rq)
      (auto simp: CrowdfundingRequestStartForm_init_def Let_def start_fields.defs
         split: option.splits if_splits)
qed

theorem init_without_request_raises_witness:
  "CrowdfundingRequestStartForm_init kinds0 base0 None (Some [campaign0 ''finished''])
     (Some user0) = Inl AttributeError \<and>
   CrowdfundingRequestStartForm_init kinds0 base0 (Some request0)
     (Some [campaign0 ''finished'']) (Some user0) = Inr (start_form0 ''finished'') \<and>
   title_initial (start_form0 ''finished'') = Some (rq_title request0)"
proof -
  have ok: "CrowdfundingRequestStartForm_init kinds0 base0 (Some request0)
     (Some [campaign0 ''finished'']) (Some user0) = Inr (start_form0 ''finished'')"
    by (simp add: CrowdfundingRequestStartForm_init_def Let_def start_fields.defs kinds0_def
          base0_def declared_start_fields_def request0_def campaign0_def start_form0_def)
  from init_without_request_raises
         [of kinds0 base0 "Some [campaign0 ''finished'']" "Some user0" "Some request0"] ok
  show ?thesis by simp
qed

text \<open>
  Claim C3, as the specification states it: the offered kinds would be \<open>spec_offered_kinds\<close>,
  which keeps a kind that only a finished campaign uses. The initialiser does not: with one
  finished campaign of kind \<^verbatim>\<open>fees\<close>, it offers \<^verbatim>\<open>lawsuit\<close> alone.
\<close>

theorem kind_choices_counterexample:
  "map_sum id kind_choices
     (CrowdfundingRequestStartForm_init kinds0 base0 (Some request0)
        (Some [campaign0 ''finished'']) (Some user0)) = Inr [(''lawsuit'', ''Lawsuit'')] \<and>
   spec_offered_kinds kinds0 [campaign0 ''finished''] =
     [(''fees'', ''Fees''), (''lawsuit'', ''Lawsuit'')] \<and>
   map_sum id kind_choices
     (CrowdfundingRequestStartForm_init kinds0 base0 (Some request0)
        (Some [campaign0 ''finished'']) (Some user0)) \<noteq>
     Inr (spec_offered_kinds kinds0 [campaign0 ''finished''])"
  by (simp add: CrowdfundingRequestStartForm_init_def Let_def start_fields.defs kinds0_def
        base0_def declared_start_fields_def request0_def campaign0_def spec_offered_kinds_def)

text \<open>
  Claim C3, amended. With a request and a collection of its campaigns, the offered kinds are
  the configured choices, in their order, without every kind that a campaign of the
  collection uses, whatever the campaign's status.
\<close>

theorem kind_choices_exclude_existing:
  "map_sum id kind_choices
     (CrowdfundingRequestStartForm_init kc base (Some rq) (Some cs) u) =
     Inr (filter (\<lambda>c. fst c \<notin> cf_kind ` set cs) kc) \<and>
   (\<forall>k. k \<in> fst ` set (filter (\<lambda>c. fst c \<notin> cf_kind ` set cs) kc) \<longleftrightarrow>
      k \<in> fst ` set kc \<and> \<not> (\<exists>c \<in> set cs. cf_kind c = k))"
proof
  show "map_sum id kind_choices
     (CrowdfundingRequestStartForm_init kc base (Some rq) (Some cs) u) =
     Inr (filter (\<lambda>c. fst c \<notin> cf_kind ` set cs) kc)"
    by (simp add: CrowdfundingRequestStartForm_init_def Let_def start_fields.defs
          split: option.splits)
  show "\<forall>k. k \<in> fst ` set (filter (\<lambda>c. fst c \<notin> cf_kind ` set cs) kc) \<longleftrightarrow>
      k \<in> fst ` set kc \<and> \<not> (\<exists>c \<in> set cs. cf_kind c = k)"
    by force
qed

theorem kind_choices_exclude_existing_witness:
  "map_sum id kind_choices
     (CrowdfundingRequestStartForm_init kinds0 base0 (Some request0)
        (Some [campaign0 ''running'']) None) = Inr [(''lawsuit'', ''Lawsuit'')]"
proof -
  have "filter (\<lambda>c. fst c \<notin> cf_kind ` set [campaign0 ''running'']) kinds0 =
          [(''lawsuit'', ''Lawsuit'')]"
    by (simp add: kinds0_def campaign0_def)
  with kind_choices_exclude_existing [of kinds0 base0 request0 "[campaign0 ''running'']" None]
  show ?thesis by simp
qed

lemma can_start_crowdfunding_iff:
  "can_start_crowdfunding cs \<longleftrightarrow> (\<forall>c \<in> set cs. cf_status c = ''finished'')"
  by (auto simp: can_start_crowdfunding_def list_ex_iff)

text \<open>
  Claim C4. When one of the request's campaigns has a status other than \<^verbatim>\<open>finished\<close>,
  \<^verbatim>\<open>clean\<close> raises the validation error, the form has exactly that one form-level error,
  and saving raises and leaves the store as it was: no campaign is persisted.
\<close>

theorem ongoing_campaign_rejected:
  assumes cs: "sf_crowdfundings form = Some cs"
    and ongoing: "\<exists>c \<in> set cs. cf_status c \<noteq> ''finished''"
  shows "CrowdfundingRequestStartForm_clean form =
           Inl (ValidationError ''You have an ongoing crowdfunding.'') \<and>
         full_clean form = Inr (field_errors form, [''You have an ongoing crowdfunding.'']) \<and>
         CrowdfundingRequestStartForm_save e f form store = (Inl ValueError, store)"
proof -
  from ongoing have "\<not> can_start_crowdfunding cs"
    by (auto simp: can_start_crowdfunding_iff)
  with cs have c: "CrowdfundingRequestStartForm_clean form =
           Inl (ValidationError ''You have an ongoing crowdfunding.'')"
    by (simp add: CrowdfundingRequestStartForm_clean_def)
  then have fc: "full_clean form =
      Inr (field_errors form, [''You have an ongoing crowdfunding.''])"
    by (simp add: full_clean_def)
  then have "ModelForm_save form = Inl ValueError"
    by (simp add: ModelForm_save_def)
  then have "CrowdfundingRequestStartForm_save e f form store = (Inl ValueError, store)"
    by (simp add: CrowdfundingRequestStartForm_save_def)
  with c fc show ?thesis by (intro conjI)
qed

theorem ongoing_campaign_rejected_witness:
  "sf_crowdfundings (start_form0 ''running'') = Some [campaign0 ''running''] \<and>
   (\<exists>c \<in> set [campaign0 ''running'']. cf_status c \<noteq> ''finished'') \<and>
   full_clean (start_form0 ''running'') = Inr ([], [''You have an ongoing crowdfunding.'']) \<and>
   CrowdfundingRequestStartForm_save (env0 None) (Dec 115 (- 2)) (start_form0 ''running'')
     store0 =
     (Inl ValueError, store0)"
proof -
  have a: "sf_crowdfundings (start_form0 ''running'') = Some [campaign0 ''running'']"
    by (simp add: start_form0_def start_fields.defs)
  have b: "\<exists>c \<in> set [campaign0 ''running'']. cf_status c \<noteq> ''finished''"
    by (simp add: campaign0_def)
  have fe: "field_errors (start_form0 ''running'') = []"
    by (simp add: start_form0_def start_fields.defs base0_def declared_start_fields_def)
  from ongoing_campaign_rejected [OF a b, of "env0 None" "Dec 115 (- 2)" store0] a b fe
  show ?thesis by simp
qed

text \<open>
  Claim C6. When the submission passes all validation (no field error, no form-level
  error), saving persists exactly one campaign: the store gains the returned campaign at
  its end. Its amount needed is what \<^verbatim>\<open>calculate_amount_needed\<close> returns for the validated
  amount requested, and it carries the form's user and request. The validated amount and
  the overhead factor are finite decimals whose product is below the context's largest
  exponent (no decimal overflow); the computation of the amount needed then returns.
\<close>

theorem start_save_persists_campaign:
  assumes valid: "full_clean form = Inr ([], [])"
    and ok: "slug_fault e = None"
    and amount: "sc_amount_requested (cleaned_data form) = Dec c k"
    and factor: "f = Dec d g"
    and range: "int (ndigits (nat \<bar>c * d\<bar>)) + (k + g) - prec < Etop"
  shows "\<exists>obj a. CrowdfundingRequestStartForm_save e f form store =
               (Inr obj, store\<lparr>campaigns := campaigns store @ [obj]\<rparr>) \<and>
             calculate_amount_needed f (sc_amount_requested (cleaned_data form)) = Inr a \<and>
             cf_amount_needed obj = a \<and>
             cf_amount_requested obj = sc_amount_requested (cleaned_data form) \<and>
             cf_user obj = sf_user form \<and>
             cf_request obj = sf_foirequest form \<and>
             cf_title obj = sc_title (cleaned_data form) \<and>
             cf_kind obj = sc_kind (cleaned_data form)"
proof -
  from calculate_amount_needed_returns [OF range] amount factor obtain r where
    r: "calculate_amount_needed f (sc_amount_requested (cleaned_data form)) = Inr (Dec (10 * r) 0)"
    by auto
  from valid have
    "ModelForm_save form = Inr (construct_instance (cleaned_data form) (form_instance form))"
    by (simp add: ModelForm_save_def)
  with ok r show ?thesis
    by (simp add: CrowdfundingRequestStartForm_save_def save_obj_with_slug_def Let_def
          construct_instance_def)
qed

theorem start_save_persists_campaign_witness:
  "full_clean (start_form0 ''finished'') = Inr ([], []) \<and>
   slug_fault (env0 None) = None \<and>
   sc_amount_requested (cleaned_data (start_form0 ''finished'')) = Dec 1000 (- 2) \<and>
   int (ndigits (nat \<bar>1000 * 115\<bar>)) + (- 2 + - 2) - prec < Etop \<and>
   (\<exists>obj. CrowdfundingRequestStartForm_save (env0 None) (Dec 115 (- 2))
             (start_form0 ''finished'') store0 =
             (Inr obj, store0\<lparr>campaigns := campaigns store0 @ [obj]\<rparr>) \<and>
          cf_amount_needed obj = Dec 20 0 \<and> cf_user obj = Some user0 \<and>
          cf_request obj = Some request0)"
proof -
  have a: "full_clean (start_form0 ''finished'') = Inr ([], [])"
    by (simp add: full_clean_def CrowdfundingRequestStartForm_clean_def
          can_start_crowdfunding_def start_form0_def start_fields.defs base0_def
          declared_start_fields_def campaign0_def)
  have b: "slug_fault (env0 None) = None"
    by (simp add: env0_def)
  have amt: "sc_amount_requested (cleaned_data (start_form0 ''finished'')) = Dec 1000 (- 2)"
    by (simp add: start_form0_def start_fields.defs base0_def declared_start_fields_def
          start_data0_def)
  have nd: "ndigits 115000 = 6" by (simp add: ndigits.simps)
  have rg: "int (ndigits (nat \<bar>1000 * 115\<bar>)) + (- 2 + - 2) - prec < Etop"
    by (simp add: nd prec_def Etop_def Emax_def)
  have fits: "fits_context 115000 (- 4)" "fits_context 115000 (- 5)"
    by (simp_all add: fits_context_def nd prec_def Emax_def Emin_def Etiny_def)
  have "\<lceil>(23::rat) / 20\<rceil> = 2"
    by (rule ceiling_unique) simp_all
  then have v: "calculate_amount_needed (Dec 115 (- 2)) (Dec 1000 (- 2)) = Inr (Dec 20 0)"
    using fix_dec_exact [OF fits(1)] fix_dec_exact [OF fits(2)]
    by (simp add: calculate_amount_needed_def dec_val_def)
  have u: "sf_user (start_form0 ''finished'') = Some user0"
    "sf_foirequest (start_form0 ''finished'') = Some request0"
    by (simp_all add: start_form0_def start_fields.defs)
  from start_save_persists_campaign [OF a b amt refl rg, of store0] v u amt
  have "\<exists>obj. CrowdfundingRequestStartForm_save (env0 None) (Dec 115 (- 2))
             (start_form0 ''finished'') store0 =
             (Inr obj, store0\<lparr>campaigns := campaigns store0 @ [obj]\<rparr>) \<and>
          cf_amount_needed obj = Dec 20 0 \<and> cf_user obj = Some user0 \<and>
          cf_request obj = Some request0"
    by auto
  with a b amt rg show ?thesis by (intro conjI)
qed

end
